theory Spec2Isabelle
  imports Complex_Main "HOL-Library.AList"
begin

section \<open>JavaScript numbers\<close>

text \<open>
  A JavaScript number is modelled as an exact real, one of the two infinities, or NaN.
  Finite arithmetic is exact: rounding, overflow of a finite result to an infinity,
  underflow and the sign of zero are not part of this model.
\<close>

datatype jsnum = Fin real | PInf | NInf | NaN

fun jsneg :: "jsnum \<Rightarrow> jsnum" where
  "jsneg (Fin a) = Fin (- a)"
| "jsneg PInf = NInf"
| "jsneg NInf = PInf"
| "jsneg NaN = NaN"

fun jsadd :: "jsnum \<Rightarrow> jsnum \<Rightarrow> jsnum" where
  "jsadd NaN _ = NaN"
| "jsadd _ NaN = NaN"
| "jsadd (Fin a) (Fin b) = Fin (a + b)"
| "jsadd PInf NInf = NaN"
| "jsadd NInf PInf = NaN"
| "jsadd PInf _ = PInf"
| "jsadd _ PInf = PInf"
| "jsadd NInf _ = NInf"
| "jsadd _ NInf = NInf"

definition jssub :: "jsnum \<Rightarrow> jsnum \<Rightarrow> jsnum" where
  "jssub a b = jsadd a (jsneg b)"

text \<open>The sign of a number that is not NaN: \<open>-1\<close>, \<open>0\<close> or \<open>1\<close>.\<close>

fun jssign :: "jsnum \<Rightarrow> real" where
  "jssign (Fin a) = sgn a"
| "jssign PInf = 1"
| "jssign NInf = - 1"
| "jssign NaN = 0"

fun jsmul :: "jsnum \<Rightarrow> jsnum \<Rightarrow> jsnum" where
  "jsmul NaN _ = NaN"
| "jsmul _ NaN = NaN"
| "jsmul (Fin a) (Fin b) = Fin (a * b)"
| "jsmul a b =
     (if jssign a * jssign b = 0 then NaN
      else if jssign a * jssign b > 0 then PInf else NInf)"

text \<open>
  Division. The code below never divides by zero (\<open>length || 1\<close> and the test
  \<open>l === 0\<close> come first); the quotient by zero is written as for a positive zero.
\<close>

fun jsdiv :: "jsnum \<Rightarrow> jsnum \<Rightarrow> jsnum" where
  "jsdiv NaN _ = NaN"
| "jsdiv _ NaN = NaN"
| "jsdiv (Fin a) (Fin b) =
     (if b \<noteq> 0 then Fin (a / b)
      else if a = 0 then NaN else if a > 0 then PInf else NInf)"
| "jsdiv (Fin a) _ = Fin 0"
| "jsdiv a (Fin b) =
     (if jssign a * (if b < 0 then - 1 else 1) > 0 then PInf else NInf)"
| "jsdiv _ _ = NaN"



text \<open>The relational operator \<open><\<close>: false whenever an operand is NaN.\<close>

fun jslt :: "jsnum \<Rightarrow> jsnum \<Rightarrow> bool" where
  "jslt NaN _ = False"
| "jslt _ NaN = False"
| "jslt (Fin a) (Fin b) = (a < b)"
| "jslt NInf NInf = False"
| "jslt NInf _ = True"
| "jslt _ NInf = False"
| "jslt PInf _ = False"
| "jslt _ PInf = True"


text \<open>\<open>Math.min\<close> and \<open>Math.max\<close>: NaN as soon as an argument is NaN.\<close>

definition Math_min :: "jsnum \<Rightarrow> jsnum \<Rightarrow> jsnum" where
  "Math_min a b = (if a = NaN \<or> b = NaN then NaN else if jslt b a then b else a)"

definition Math_max :: "jsnum \<Rightarrow> jsnum \<Rightarrow> jsnum" where
  "Math_max a b = (if a = NaN \<or> b = NaN then NaN else if jslt a b then b else a)"

definition Math_max3 :: "jsnum \<Rightarrow> jsnum \<Rightarrow> jsnum \<Rightarrow> jsnum" where
  "Math_max3 a b c = Math_max (Math_max a b) c"

text \<open>\<open>x || d\<close> on numbers: \<open>d\<close> when \<open>x\<close> is falsy, that is zero or NaN.\<close>

definition js_or :: "jsnum \<Rightarrow> jsnum \<Rightarrow> jsnum" where
  "js_or x d = (if x = Fin 0 \<or> x = NaN then d else x)"


section \<open>Cells of a sheet and \<open>parseFloat\<close>\<close>

text \<open>
  A coordinate field of a row object is absent (\<open>undefined\<close>), a number, a text or a
  boolean. Strings are byte strings, so white space is the ASCII white space of
  JavaScript's \<open>StrWhiteSpaceChar\<close>.
\<close>

datatype cell = Missing | NumCell jsnum | TextCell string | BoolCell bool

definition is_space :: "char \<Rightarrow> bool" where
  "is_space c = (c \<in> set [CHR '' '', CHR 0x09, CHR 0x0A, CHR 0x0B, CHR 0x0C, CHR 0x0D])"

definition is_digit :: "char \<Rightarrow> bool" where
  "is_digit c = (c \<in> set ''0123456789'')"

definition digit_val :: "char \<Rightarrow> nat" where
  "digit_val c = of_char c - 48"

definition digits_val :: "string \<Rightarrow> nat" where
  "digits_val ds = foldl (\<lambda>n c. 10 * n + digit_val c) 0 ds"

definition unsigned_digits :: "string \<Rightarrow> int option" where
  "unsigned_digits s =
     (let ds = takeWhile is_digit s
      in if ds = [] then None else Some (int (digits_val ds)))"

definition signed_digits :: "string \<Rightarrow> int option" where
  "signed_digits s =
     (case s of
        [] \<Rightarrow> None
      | c # r \<Rightarrow>
          if c = CHR ''+'' then unsigned_digits r
          else if c = CHR ''-'' then map_option uminus (unsigned_digits r)
          else unsigned_digits s)"

text \<open>The value of the \<open>ExponentPart\<close> that starts the text, 0 when none does.\<close>

definition exponent_of :: "string \<Rightarrow> int" where
  "exponent_of s =
     (case s of
        [] \<Rightarrow> 0
      | c # r \<Rightarrow>
          if c = CHR ''e'' \<or> c = CHR ''E''
          then (case signed_digits r of None \<Rightarrow> 0 | Some k \<Rightarrow> k)
          else 0)"

definition scale10 :: "real \<Rightarrow> int \<Rightarrow> real" where
  "scale10 m k = (if 0 \<le> k then m * 10 ^ nat k else m / 10 ^ nat (- k))"

text \<open>
  The longest prefix that is a \<open>StrUnsignedDecimalLiteral\<close>: \<open>Infinity\<close>, or digits
  with an optional fraction and exponent, or a dot with digits and an optional exponent.
\<close>

definition unsigned_literal :: "string \<Rightarrow> jsnum" where
  "unsigned_literal s =
     (if take 8 s = ''Infinity'' then PInf
      else
        let ip = takeWhile is_digit s;
            r1 = dropWhile is_digit s;
            has_dot = (r1 \<noteq> [] \<and> hd r1 = CHR ''.'');
            fp = (if has_dot then takeWhile is_digit (tl r1) else []);
            r2 = (if has_dot then dropWhile is_digit (tl r1) else r1)
        in if ip = [] \<and> fp = [] then NaN
           else Fin (scale10 (real (digits_val ip) + real (digits_val fp) / 10 ^ length fp)
                      (exponent_of r2)))"

definition parseFloat_string :: "string \<Rightarrow> jsnum" where
  "parseFloat_string s =
     (case dropWhile is_space s of
        [] \<Rightarrow> NaN
      | c # r \<Rightarrow>
          if c = CHR ''-'' then jsneg (unsigned_literal r)
          else if c = CHR ''+'' then unsigned_literal r
          else unsigned_literal (c # r))"

text \<open>
  \<open>parseFloat\<close> converts its argument to a string and parses that: \<open>undefined\<close>,
  \<open>true\<close> and \<open>false\<close> give NaN, and a number is read back from its own string form
  unchanged.
\<close>

fun parseFloat :: "cell \<Rightarrow> jsnum" where
  "parseFloat Missing = NaN"
| "parseFloat (NumCell n) = n"
| "parseFloat (TextCell s) = parseFloat_string s"
| "parseFloat (BoolCell b) = NaN"

section \<open>Vectors and quaternions of the rendering library\<close>

text \<open>
  The methods of \<open>Vector3\<close> and \<open>Quaternion\<close> that the components call, written as
  the library computes them, component by component.
\<close>

datatype Vector3 = Vector3 jsnum jsnum jsnum



fun add :: "Vector3 \<Rightarrow> Vector3 \<Rightarrow> Vector3" where
  "add (Vector3 x y z) (Vector3 vx vy vz) = Vector3 (jsadd x vx) (jsadd y vy) (jsadd z vz)"












definition fvec :: "real \<Rightarrow> real \<Rightarrow> real \<Rightarrow> Vector3" where
  "fvec x y z = Vector3 (Fin x) (Fin y) (Fin z)"


section \<open>The cylinder between two nodes\<close>






section \<open>Nodes and members\<close>

text \<open>
  A node object has the properties \<open>Node\<close>, \<open>X\<close>, \<open>Y\<close> and \<open>Z\<close>; a member object
  has \<open>StartNode\<close> and \<open>EndNode\<close> and, as a row of the sheet, the columns
  \<open>Start Node\<close> and \<open>End Node\<close> (here \<open>Start_Node\<close> and \<open>End_Node\<close>). A property
  that the object lacks is \<open>undefined\<close>, which is \<open>None\<close>. An identifier cell, string
  or number in the sheet, is represented by its string form, the value that
  \<open>toString()\<close> gives for it.
\<close>

record node =
  Node :: "string option"
  X :: cell
  Y :: cell
  Z :: cell

record member =
  StartNode :: "string option"
  EndNode :: "string option"
  Start_Node :: "string option"
  End_Node :: "string option"

text \<open>\<open>nodes.find(n => n.Node === ident)\<close>: the first node with that identifier.\<close>

definition find_node :: "node list \<Rightarrow> string option \<Rightarrow> node option" where
  "find_node nodes ident = List.find (\<lambda>n. Node n = ident) nodes"

section \<open>Connection counts of the stand-alone model\<close>

text \<open>
  \<open>nodeConnections\<close> is an object used as a dictionary: its keys are property names,
  so the key for \<open>undefined\<close> is the string \<open>undefined\<close>. The counts are kept as an
  association list with distinct keys. \<open>get_count\<close> is \<open>nodeConnections[k] || 0\<close>.
\<close>

definition prop_key :: "string option \<Rightarrow> string" where
  "prop_key v = (case v of None \<Rightarrow> ''undefined'' | Some s \<Rightarrow> s)"

definition get_count :: "(string \<times> nat) list \<Rightarrow> string \<Rightarrow> nat" where
  "get_count nodeConnections k = (case map_of nodeConnections k of None \<Rightarrow> 0 | Some c \<Rightarrow> c)"

text \<open>
  The body of the \<open>forEach\<close>. The first assignment reads the count under
  \<open>member["Start Node"]\<close> and stores under \<open>member.StartNode\<close>; the second reads the
  count under \<open>members["End Node"]\<close>, a property of the array, which is \<open>undefined\<close>,
  and stores under \<open>member.EndNode\<close>.
\<close>

definition count_member :: "(string \<times> nat) list \<Rightarrow> member \<Rightarrow> (string \<times> nat) list" where
  "count_member nodeConnections member =
     (let nc1 = AList.update (prop_key (StartNode member))
                  (get_count nodeConnections (prop_key (Start_Node member)) + 1) nodeConnections;
          nc2 = AList.update (prop_key (EndNode member))
                  (get_count nc1 (prop_key None) + 1) nc1
      in nc2)"

definition findEndpoints :: "member list \<Rightarrow> (string \<times> nat) list" where
  "findEndpoints members = foldl count_member [] members"

section \<open>The cylinder lists\<close>






text \<open>
  \<open>cylinders\<close> of the stand-alone model: the nodes are looked up under the columns
  \<open>Start Node\<close> and \<open>End Node\<close>, a coordinate is \<open>parseFloat(c) || 0\<close>, the list keeps
  a \<open>null\<close> for a member with a missing node, and \<open>isEndpoint\<close> is
  \<open>findEndpoints[member.EndNode] === 1\<close>.
\<close>

record cylinder_el_part0 =
  key_part0 :: nat
  start_part0 :: Vector3
  end_part0 :: Vector3
  isEndpoint :: bool

definition position_or0 :: "node \<Rightarrow> Vector3" where
  "position_or0 n =
     Vector3 (js_or (parseFloat (X n)) (Fin 0)) (js_or (parseFloat (Y n)) (Fin 0))
             (js_or (parseFloat (Z n)) (Fin 0))"

definition cylinder_of_part0 ::
    "(string \<times> nat) list \<Rightarrow> node list \<Rightarrow> nat \<times> member \<Rightarrow> cylinder_el_part0 option" where
  "cylinder_of_part0 endpoints nodes im =
     (case im of (index, member) \<Rightarrow>
        (case (find_node nodes (Start_Node member), find_node nodes (End_Node member)) of
           (Some startNode, Some endNode) \<Rightarrow>
              Some \<lparr>key_part0 = index, start_part0 = position_or0 startNode,
                    end_part0 = position_or0 endNode,
                    isEndpoint = (map_of endpoints (prop_key (EndNode member)) = Some 1)\<rparr>
         | _ \<Rightarrow> None))"

definition cylinders_part0 :: "member list \<Rightarrow> node list \<Rightarrow> cylinder_el_part0 option list" where
  "cylinders_part0 members nodes =
     map (cylinder_of_part0 (findEndpoints members) nodes) (enumerate 0 members)"

section \<open>The marker cubes of \<open>App.js\<close>\<close>

text \<open>
  A position goes through \<open>JSON.stringify\<close> into a \<open>Set\<close> of strings and back through
  \<open>JSON.parse\<close>. JSON writes NaN and the infinities as \<open>null\<close>, and two finite numbers
  have the same text exactly when they are equal, so the string is represented by the
  array it denotes: three entries, each a number or \<open>null\<close>. The \<open>Set\<close> keeps the order
  of first insertion.
\<close>

fun json_number :: "jsnum \<Rightarrow> real option" where
  "json_number (Fin a) = Some a"
| "json_number PInf = None"
| "json_number NInf = None"
| "json_number NaN = None"

definition json_position :: "node \<Rightarrow> real option list" where
  "json_position n =
     [json_number (parseFloat (X n)), json_number (parseFloat (Y n)),
      json_number (parseFloat (Z n))]"

definition set_add :: "'a \<Rightarrow> 'a list \<Rightarrow> 'a list" where
  "set_add x s = (if x \<in> set s then s else s @ [x])"

definition specialMembers :: "nat list" where
  "specialMembers = [0, 11, 4]"

definition add_member_cubes ::
    "member list \<Rightarrow> node list \<Rightarrow> real option list list \<Rightarrow> nat \<Rightarrow> real option list list" where
  "add_member_cubes members nodes cubePositions memberIndex =
     (if memberIndex < length members then
        (let member = members ! memberIndex;
             startNode = find_node nodes (StartNode member);
             endNode = find_node nodes (EndNode member);
             s1 = (case startNode of None \<Rightarrow> cubePositions
                   | Some n \<Rightarrow> set_add (json_position n) cubePositions);
             s2 = (case endNode of None \<Rightarrow> s1 | Some n \<Rightarrow> set_add (json_position n) s1)
         in s2)
      else cubePositions)"

text \<open>The result lists the elements \<open><Cube key position />\<close>, the key \<open>cube-i\<close> as \<open>i\<close>.\<close>

definition cubes :: "member list option \<Rightarrow> node list option \<Rightarrow> (nat \<times> real option list) list" where
  "cubes members nodes =
     (case (members, nodes) of
        (Some ms, Some ns) \<Rightarrow>
           if ms = [] \<or> ns = [] then []
           else enumerate 0 (foldl (add_member_cubes ms ns) [] specialMembers)
      | _ \<Rightarrow> [])"

section \<open>Scene bounds\<close>

record coords =
  minX :: jsnum
  maxX :: jsnum
  minY :: jsnum
  maxY :: jsnum
  minZ :: jsnum
  maxZ :: jsnum

record bounds =
  center :: Vector3
  size_b :: jsnum

definition seed :: coords where
  "seed = \<lparr>minX = PInf, maxX = NInf, minY = PInf, maxY = NInf, minZ = PInf, maxZ = NInf\<rparr>"

text \<open>The reducer; \<open>rd\<close> reads a coordinate field of the node.\<close>

definition reducer :: "(cell \<Rightarrow> jsnum) \<Rightarrow> coords \<Rightarrow> node \<Rightarrow> coords" where
  "reducer rd acc n =
     (let x = rd (X n); y = rd (Y n); z = rd (Z n)
      in \<lparr>minX = Math_min (minX acc) x, maxX = Math_max (maxX acc) x,
          minY = Math_min (minY acc) y, maxY = Math_max (maxY acc) y,
          minZ = Math_min (minZ acc) z, maxZ = Math_max (maxZ acc) z\<rparr>)"

definition bounds_of :: "coords \<Rightarrow> bounds" where
  "bounds_of c =
     \<lparr>center = Vector3 (jsdiv (jsadd (minX c) (maxX c)) (Fin 2))
                        (jsdiv (jsadd (minY c) (maxY c)) (Fin 2))
                        (jsdiv (jsadd (minZ c) (maxZ c)) (Fin 2)),
      size_b = jsmul (Math_max3 (jssub (maxX c) (minX c)) (jssub (maxY c) (minY c))
                                (jssub (maxZ c) (minZ c)))
                     (Fin 1.5)\<rparr>"

definition default_bounds :: bounds where
  "default_bounds = \<lparr>center = Vector3 (Fin 0) (Fin 0) (Fin 0), size_b = Fin 10\<rparr>"

text \<open>\<open>sceneBounds\<close> of \<open>App.js\<close>: a coordinate is \<open>parseFloat(node.X)\<close>.\<close>

definition sceneBounds :: "node list option \<Rightarrow> bounds" where
  "sceneBounds nodes =
     (case nodes of
        None \<Rightarrow> default_bounds
      | Some ns \<Rightarrow>
          if ns = [] then default_bounds
          else bounds_of (foldl (reducer parseFloat) seed ns))"

text \<open>\<open>sceneBounds\<close> of the stand-alone model: a coordinate is \<open>parseFloat(node.X) || 0\<close>.\<close>

definition sceneBounds_part0 :: "node list \<Rightarrow> bounds" where
  "sceneBounds_part0 nodes =
     (if nodes = [] then default_bounds
      else bounds_of (foldl (reducer (\<lambda>c. js_or (parseFloat c) (Fin 0))) seed nodes))"

text \<open>The camera position and the translation of the group, from the bounds.\<close>

definition camera_position :: "bounds \<Rightarrow> Vector3" where
  "camera_position b =
     (case center b of Vector3 c0 c1 c2 \<Rightarrow>
        Vector3 (jsadd c0 (size_b b)) (jsadd c1 (size_b b)) (jsadd c2 (size_b b)))"

definition group_position :: "bounds \<Rightarrow> Vector3" where
  "group_position b = (case center b of Vector3 c0 c1 c2 \<Rightarrow> Vector3 (jsneg c0) (jsneg c1) (jsneg c2))"

section \<open>Loading a file\<close>

text \<open>
  What the spreadsheet decoder hands to the \<open>onload\<close> handler: \<open>XLSX.read\<close> throws an
  error with a message, or returns a workbook. Of the workbook only the first two sheets
  are read, the first as member rows and the second as node rows; a sheet that the
  workbook lacks is \<open>None\<close>, and \<open>sheet_to_json\<close> gives no rows for it.
\<close>

datatype upload = Unreadable string | Workbook "member list option" "node list option"

definition sheet_to_json :: "'a list option \<Rightarrow> 'a list" where
  "sheet_to_json sheet = (case sheet of None \<Rightarrow> [] | Some rows \<Rightarrow> rows)"

record app_state =
  st_members :: "member list"
  st_nodes :: "node list"
  st_error :: "string option"

definition initial_state :: app_state where
  "initial_state = \<lparr>st_members = [], st_nodes = [], st_error = None\<rparr>"

definition process_node :: "node \<Rightarrow> node" where
  "process_node n =
     \<lparr>Node = Node n,
      X = NumCell (js_or (parseFloat (X n)) (Fin 0)),
      Y = NumCell (js_or (parseFloat (Y n)) (Fin 0)),
      Z = NumCell (js_or (parseFloat (Z n)) (Fin 0))\<rparr>"

definition process_member :: "member \<Rightarrow> member" where
  "process_member m =
     \<lparr>StartNode = Start_Node m, EndNode = End_Node m, Start_Node = None, End_Node = None\<rparr>"

text \<open>The \<open>try\<close> block: \<open>Inl\<close> carries the message of the error thrown.\<close>

definition try_process :: "upload \<Rightarrow> string + member list \<times> node list" where
  "try_process u =
     (case u of
        Unreadable msg \<Rightarrow> Inl msg
      | Workbook sheet0 sheet1 \<Rightarrow>
          (let membersData = sheet_to_json sheet0;
               nodesData = sheet_to_json sheet1
           in if membersData = [] \<or> nodesData = []
              then Inl ''Invalid data in Excel file''
              else Inr (map process_member membersData, map process_node nodesData)))"

text \<open>The handler with its \<open>catch\<close>: the new state of the three state variables.\<close>

definition handleFileUpload :: "upload \<Rightarrow> app_state \<Rightarrow> app_state" where
  "handleFileUpload u st =
     (case try_process u of
        Inr (processedMembers, processedNodes) \<Rightarrow>
          \<lparr>st_members = processedMembers, st_nodes = processedNodes, st_error = None\<rparr>
      | Inl msg \<Rightarrow>
          \<lparr>st_members = [], st_nodes = [], st_error = Some (''Error processing file: '' @ msg)\<rparr>)"

section \<open>Notions used in the statements\<close>








section \<open>Example data\<close>

text \<open>
  A node with an identifier and numeric coordinates; a member as \<open>App.js\<close> builds it
  (\<open>StartNode\<close> and \<open>EndNode\<close> only), as a row of the sheet (\<open>Start Node\<close> and
  \<open>End Node\<close> only), and with all four properties.
\<close>

definition node_at :: "string \<Rightarrow> real \<Rightarrow> real \<Rightarrow> real \<Rightarrow> node" where
  "node_at i x y z = \<lparr>Node = Some i, X = NumCell (Fin x), Y = NumCell (Fin y), Z = NumCell (Fin z)\<rparr>"

definition member_of :: "string \<Rightarrow> string \<Rightarrow> member" where
  "member_of a b = \<lparr>StartNode = Some a, EndNode = Some b, Start_Node = None, End_Node = None\<rparr>"

definition row_member :: "string \<Rightarrow> string \<Rightarrow> member" where
  "row_member a b = \<lparr>StartNode = None, EndNode = None, Start_Node = Some a, End_Node = Some b\<rparr>"

definition full_member :: "string \<Rightarrow> string \<Rightarrow> member" where
  "full_member a b = \<lparr>StartNode = Some a, EndNode = Some b, Start_Node = Some a, End_Node = Some b\<rparr>"

section \<open>Properties\<close>

subsection \<open>Vectors with finite coordinates\<close>





























subsection \<open>The cylinder transform\<close>




subsection \<open>Scene bounds of an empty node list\<close>

text \<open>
  Claim C6. On an empty node list (and on a missing one) \<open>sceneBounds\<close> returns the fixed
  default: centre \<open>(0,0,0)\<close> and size 10; the camera position derived from it is
  \<open>(10,10,10)\<close>, which is finite.
\<close>

theorem sceneBounds_empty:
  "sceneBounds (Some []) = \<lparr>center = Vector3 (Fin 0) (Fin 0) (Fin 0), size_b = Fin 10\<rparr> \<and>
   sceneBounds None = \<lparr>center = Vector3 (Fin 0) (Fin 0) (Fin 0), size_b = Fin 10\<rparr> \<and>
   sceneBounds_part0 [] = \<lparr>center = Vector3 (Fin 0) (Fin 0) (Fin 0), size_b = Fin 10\<rparr> \<and>
   camera_position (sceneBounds (Some [])) = fvec 10 10 10 \<and>
   camera_position (sceneBounds_part0 []) = fvec 10 10 10"
  by (simp add: sceneBounds_def sceneBounds_part0_def default_bounds_def camera_position_def
      fvec_def)

subsection \<open>The cylinder lists\<close>












lemmas example_defs = node_at_def member_of_def row_member_def full_member_def








subsection \<open>Coincident end points\<close>



subsection \<open>Connection counts\<close>

lemmas count_eval = findEndpoints_def count_member_def get_count_def prop_key_def Let_def

text \<open>
  Claim C3 at the chain of the nodes 1, 2, 3 with the members 1-2 and 3-2. The code
  gives the interior node 2 the count 1, so both members get a marker cube at node 2;
  with the members 1-2 and 2-3 as \<open>App.js\<close> builds them every count is 1 as well. The
  second assignment of the loop reads \<open>members["End Node"]\<close>, a property of the array,
  where the count of the member's own end node is meant.
\<close>

theorem findEndpoints_chain_miscounted:
  "findEndpoints [full_member ''1'' ''2'', full_member ''3'' ''2''] =
     [(''1'', 1), (''2'', 1), (''3'', 1)] \<and>
   map (map_option isEndpoint)
     (cylinders_part0 [full_member ''1'' ''2'', full_member ''3'' ''2'']
        [node_at ''1'' 0 0 0, node_at ''2'' 1 0 0, node_at ''3'' 2 0 0]) =
     [Some True, Some True] \<and>
   findEndpoints [member_of ''1'' ''2'', member_of ''2'' ''3''] =
     [(''1'', 1), (''2'', 1), (''3'', 1)]"
  by (simp add: count_eval example_defs cylinders_part0_def cylinder_of_part0_def find_node_def
      enumerate_simps)

text \<open>
  Claim C4 at the same inputs: the counts of two members add up to 3 and not to 4, and
  the counts of a single member from a node to itself add up to 1 and not to 2.
\<close>

theorem findEndpoints_sum_short:
  "sum_list (map snd (findEndpoints [full_member ''1'' ''2'', full_member ''3'' ''2''])) = 3 \<and>
   2 * length [full_member ''1'' ''2'', full_member ''3'' ''2''] = 4 \<and>
   sum_list (map snd (findEndpoints [full_member ''1'' ''1''])) = 1 \<and>
   sum_list (map snd (findEndpoints [member_of ''1'' ''2'', member_of ''2'' ''3''])) = 3"
  by (simp add: count_eval example_defs)

subsection \<open>Scene bounds of a list of nodes\<close>















subsection \<open>Coordinates of the processed nodes\<close>







lemmas parse_eval = parseFloat_string_def unsigned_literal_def is_digit_def is_space_def
  digits_val_def digit_val_def exponent_of_def scale10_def signed_digits_def unsigned_digits_def




subsection \<open>Loading a file\<close>

lemma try_process_fails:
  "sheet0 = None \<or> sheet1 = None \<or> sheet0 = Some [] \<or> sheet1 = Some [] \<Longrightarrow>
     try_process (Workbook sheet0 sheet1) = Inl ''Invalid data in Excel file''"
  by (auto simp: try_process_def sheet_to_json_def split: option.splits)

lemma try_process_ok:
  "ms \<noteq> [] \<Longrightarrow> ns \<noteq> [] \<Longrightarrow>
     try_process (Workbook (Some ms) (Some ns)) = Inr (map process_member ms, map process_node ns)"
  by (simp add: try_process_def sheet_to_json_def)

text \<open>
  Claim C8. When the decoder throws, when the workbook has fewer than two sheets, or when
  one of the two sheets has no rows, the handler sets both lists to the empty list and the
  error to a message that starts with \<open>Error processing file: \<close>. Otherwise it sets the
  error to \<open>null\<close> and the two lists to the processed rows, whatever the state before.
\<close>

theorem handleFileUpload_outcome:
  "handleFileUpload (Unreadable msg) st =
     \<lparr>st_members = [], st_nodes = [], st_error = Some (''Error processing file: '' @ msg)\<rparr> \<and>
   (sheet0 = None \<or> sheet1 = None \<or> sheet0 = Some [] \<or> sheet1 = Some [] \<longrightarrow>
      handleFileUpload (Workbook sheet0 sheet1) st =
        \<lparr>st_members = [], st_nodes = [],
         st_error = Some ''Error processing file: Invalid data in Excel file''\<rparr>) \<and>
   (ms \<noteq> [] \<and> ns \<noteq> [] \<longrightarrow>
      handleFileUpload (Workbook (Some ms) (Some ns)) st =
        \<lparr>st_members = map process_member ms, st_nodes = map process_node ns, st_error = None\<rparr>)"
proof -
  have 1: "handleFileUpload (Unreadable msg) st =
     \<lparr>st_members = [], st_nodes = [], st_error = Some (''Error processing file: '' @ msg)\<rparr>"
    by (simp add: handleFileUpload_def try_process_def)
  have 2: "handleFileUpload (Workbook sheet0 sheet1) st =
        \<lparr>st_members = [], st_nodes = [],
         st_error = Some ''Error processing file: Invalid data in Excel file''\<rparr>"
    if "sheet0 = None \<or> sheet1 = None \<or> sheet0 = Some [] \<or> sheet1 = Some []"
    by (simp add: handleFileUpload_def try_process_fails[OF that])
  have 3: "handleFileUpload (Workbook (Some ms) (Some ns)) st =
        \<lparr>st_members = map process_member ms, st_nodes = map process_node ns, st_error = None\<rparr>"
    if "ms \<noteq> [] \<and> ns \<noteq> []"
    using that by (simp add: handleFileUpload_def try_process_ok)
  from 1 2 3 show ?thesis by blast
qed

theorem handleFileUpload_outcome_witness:
  "handleFileUpload (Workbook (Some [row_member ''1'' ''2'']) None)
     \<lparr>st_members = [member_of ''7'' ''8''], st_nodes = [node_at ''7'' 1 1 1], st_error = None\<rparr> =
     \<lparr>st_members = [], st_nodes = [],
      st_error = Some ''Error processing file: Invalid data in Excel file''\<rparr> \<and>
   handleFileUpload
     (Workbook (Some [row_member ''1'' ''2''])
        (Some [\<lparr>Node = Some ''1'', X = TextCell ''3.5'', Y = Missing, Z = NumCell (Fin 2)\<rparr>,
               \<lparr>Node = Some ''2'', X = NumCell (Fin 1), Y = TextCell ''abc'', Z = BoolCell True\<rparr>]))
     \<lparr>st_members = [member_of ''7'' ''8''], st_nodes = [node_at ''7'' 1 1 1],
      st_error = Some ''Error processing file: Invalid data in Excel file''\<rparr> =
     \<lparr>st_members = [member_of ''1'' ''2''],
      st_nodes = [node_at ''1'' 3.5 0 2, node_at ''2'' 1 0 0], st_error = None\<rparr>"
proof -
  let ?st = "\<lparr>st_members = [member_of ''7'' ''8''], st_nodes = [node_at ''7'' 1 1 1], st_error = None\<rparr>"
  let ?st' = "\<lparr>st_members = [member_of ''7'' ''8''], st_nodes = [node_at ''7'' 1 1 1],
      st_error = Some ''Error processing file: Invalid data in Excel file''\<rparr>"
  let ?ms = "[row_member ''1'' ''2'']"
  let ?ns = "[\<lparr>Node = Some ''1'', X = TextCell ''3.5'', Y = Missing, Z = NumCell (Fin 2)\<rparr>,
               \<lparr>Node = Some ''2'', X = NumCell (Fin 1), Y = TextCell ''abc'', Z = BoolCell True\<rparr>]"
  have a: "handleFileUpload (Workbook (Some ?ms) None) ?st =
     \<lparr>st_members = [], st_nodes = [],
      st_error = Some ''Error processing file: Invalid data in Excel file''\<rparr>"
    using handleFileUpload_outcome[of "''''" ?st "Some ?ms" None ?ms ?ns] by simp
  have p: "map process_member ?ms = [member_of ''1'' ''2'']"
    by (simp add: process_member_def example_defs)
  have q: "map process_node ?ns = [node_at ''1'' 3.5 0 2, node_at ''2'' 1 0 0]"
    by (simp add: process_node_def example_defs js_or_def parse_eval)
  have b: "handleFileUpload (Workbook (Some ?ms) (Some ?ns)) ?st' =
     \<lparr>st_members = [member_of ''1'' ''2''],
      st_nodes = [node_at ''1'' 3.5 0 2, node_at ''2'' 1 0 0], st_error = None\<rparr>"
    using handleFileUpload_outcome[of "''''" ?st' "Some ?ms" None ?ms ?ns] p q by simp
  from a b show ?thesis by blast
qed

subsection \<open>Marker cubes\<close>

lemma set_set_add: "set (set_add x s) = insert x (set s)"
  by (auto simp: set_add_def)

lemma distinct_set_add: "distinct s \<Longrightarrow> distinct (set_add x s)"
  by (simp add: set_add_def)

lemma set_add_member_cubes:
  "set (add_member_cubes ms ns cp i) =
     set cp \<union> (if i < length ms
               then json_position ` (set_option (find_node ns (StartNode (ms ! i))) \<union>
                                     set_option (find_node ns (EndNode (ms ! i))))
               else {})"
  by (auto simp: add_member_cubes_def Let_def set_set_add split: option.splits)

lemma distinct_add_member_cubes:
  "distinct cp \<Longrightarrow> distinct (add_member_cubes ms ns cp i)"
  by (simp add: add_member_cubes_def Let_def distinct_set_add split: option.splits)

lemma add_member_cubes_cong:
  assumes "(i < length ms') = (i < length ms)" "i < length ms \<longrightarrow> ms' ! i = ms ! i"
  shows "add_member_cubes ms' ns cp i = add_member_cubes ms ns cp i"
  using assms by (simp add: add_member_cubes_def)

lemma special_fold:
  "foldl (add_member_cubes ms ns) [] specialMembers =
     add_member_cubes ms ns (add_member_cubes ms ns (add_member_cubes ms ns [] 0) 11) 4"
  by (simp add: specialMembers_def)

lemma cubes_nonempty:
  "ms \<noteq> [] \<Longrightarrow> ns \<noteq> [] \<Longrightarrow>
     cubes (Some ms) (Some ns) = enumerate 0 (foldl (add_member_cubes ms ns) [] specialMembers)"
  by (simp add: cubes_def)

lemmas cube_eval = cubes_def specialMembers_def add_member_cubes_def set_add_def find_node_def
  json_position_def enumerate_simps Let_def

text \<open>
  Claim C10. With members and nodes present, the cubes of \<open>App.js\<close> carry the keys
  \<open>0, 1, ...\<close>, their positions are distinct, and the positions are exactly those of
  the start and end nodes that are found for the members at the indices 0, 11 and 4 that
  lie inside the list. The cubes are the same for any other non-empty member list that
  has the same members at these three indices: the number of connections of a node plays
  no part.
\<close>

theorem cubes_at_special_members:
  assumes "ms \<noteq> []" and "ns \<noteq> []"
  shows "map fst (cubes (Some ms) (Some ns)) = [0..<length (cubes (Some ms) (Some ns))] \<and>
     distinct (map snd (cubes (Some ms) (Some ns))) \<and>
     set (map snd (cubes (Some ms) (Some ns))) =
       (\<Union>i \<in> {i \<in> {0, 11, 4}. i < length ms}.
          json_position ` (set_option (find_node ns (StartNode (ms ! i))) \<union>
                            set_option (find_node ns (EndNode (ms ! i))))) \<and>
     (ms' \<noteq> [] \<and> (\<forall>i \<in> {0, 11, 4}. (i < length ms') = (i < length ms) \<and>
                                     (i < length ms \<longrightarrow> ms' ! i = ms ! i)) \<longrightarrow>
        cubes (Some ms') (Some ns) = cubes (Some ms) (Some ns))"
proof -
  let ?S = "foldl (add_member_cubes ms ns) [] specialMembers"
  have c: "cubes (Some ms) (Some ns) = enumerate 0 ?S" by (rule cubes_nonempty[OF assms])
  have 1: "map fst (cubes (Some ms) (Some ns)) = [0..<length (cubes (Some ms) (Some ns))]"
    by (simp add: c)
  have 2: "distinct (map snd (cubes (Some ms) (Some ns)))"
    by (simp add: c special_fold distinct_add_member_cubes)
  have 3: "set (map snd (cubes (Some ms) (Some ns))) =
       (\<Union>i \<in> {i \<in> {0, 11, 4}. i < length ms}.
          json_position ` (set_option (find_node ns (StartNode (ms ! i))) \<union>
                            set_option (find_node ns (EndNode (ms ! i)))))"
    unfolding c special_fold map_snd_enumerate set_add_member_cubes by auto
  have 4: "cubes (Some ms') (Some ns) = cubes (Some ms) (Some ns)"
    if "ms' \<noteq> []" and a: "\<forall>i \<in> {0, 11, 4}. (i < length ms') = (i < length ms) \<and>
                                     (i < length ms \<longrightarrow> ms' ! i = ms ! i)"
  proof -
    have e: "add_member_cubes ms' ns cp i = add_member_cubes ms ns cp i"
      if "i \<in> {0, 11, 4}" for i cp
      using a that by (intro add_member_cubes_cong) auto
    have "foldl (add_member_cubes ms' ns) [] specialMembers = ?S"
      unfolding special_fold by (simp add: e)
    then show ?thesis using cubes_nonempty[OF \<open>ms' \<noteq> []\<close> assms(2)] c by simp
  qed
  from 1 2 3 4 show ?thesis by blast
qed

theorem cubes_at_special_members_witness:
  "[member_of ''1'' ''2'', member_of ''2'' ''3'', member_of ''3'' ''4''] \<noteq> [] \<and>
   [node_at ''1'' 0 0 0, node_at ''2'' 1 0 0, node_at ''3'' 2 0 0, node_at ''4'' 3 0 0] \<noteq> [] \<and>
   cubes (Some [member_of ''1'' ''2'', member_of ''2'' ''3'', member_of ''3'' ''4''])
         (Some [node_at ''1'' 0 0 0, node_at ''2'' 1 0 0, node_at ''3'' 2 0 0, node_at ''4'' 3 0 0]) =
     [(0, [Some 0, Some 0, Some 0]), (1, [Some 1, Some 0, Some 0])] \<and>
   json_position (node_at ''4'' 3 0 0) \<notin>
     set (map snd
       (cubes (Some [member_of ''1'' ''2'', member_of ''2'' ''3'', member_of ''3'' ''4''])
         (Some [node_at ''1'' 0 0 0, node_at ''2'' 1 0 0, node_at ''3'' 2 0 0, node_at ''4'' 3 0 0]))) \<and>
   cubes (Some [member_of ''1'' ''2'', member_of ''2'' ''4''])
         (Some [node_at ''1'' 0 0 0, node_at ''2'' 1 0 0, node_at ''3'' 2 0 0, node_at ''4'' 3 0 0]) =
   cubes (Some [member_of ''1'' ''2'', member_of ''2'' ''3'', member_of ''3'' ''4''])
         (Some [node_at ''1'' 0 0 0, node_at ''2'' 1 0 0, node_at ''3'' 2 0 0, node_at ''4'' 3 0 0])"
proof -
  let ?ms = "[member_of ''1'' ''2'', member_of ''2'' ''3'', member_of ''3'' ''4'']"
  let ?ns = "[node_at ''1'' 0 0 0, node_at ''2'' 1 0 0, node_at ''3'' 2 0 0, node_at ''4'' 3 0 0]"
  have ne: "?ms \<noteq> []" "?ns \<noteq> []" by simp_all
  note t = cubes_at_special_members[OF ne, of "[member_of ''1'' ''2'', member_of ''2'' ''4'']"]
  have v: "cubes (Some ?ms) (Some ?ns) = [(0, [Some 0, Some 0, Some 0]), (1, [Some 1, Some 0, Some 0])]"
    by (simp add: cube_eval example_defs)
  have idx: "{i \<in> {0, 11, 4}. i < length ?ms} = {0::nat}" by auto
  have o: "json_position (node_at ''4'' 3 0 0) \<notin> set (map snd (cubes (Some ?ms) (Some ?ns)))"
    unfolding t[THEN conjunct2, THEN conjunct2, THEN conjunct1] idx
    by (simp add: find_node_def example_defs json_position_def)
  have i: "cubes (Some [member_of ''1'' ''2'', member_of ''2'' ''4'']) (Some ?ns) =
      cubes (Some ?ms) (Some ?ns)"
    using t[THEN conjunct2, THEN conjunct2, THEN conjunct2] by simp
  from ne v o i show ?thesis by blast
qed

end
